theory Spec2Isabelle
  imports Main
begin

section \<open>Data model of \<open>src/plugin.ts\<close>\<close>

text \<open>
  Strings are \<open>string\<close>; an optional field \<open>f?: string\<close> is a \<open>string option\<close>
  (\<open>None\<close> is \<open>undefined\<close>). JavaScript treats both \<open>undefined\<close> and the empty string as
  falsy, which is what the guards \<open>if (part.text)\<close>, \<open>props.status.message\<close> and
  \<open>props.info?.id\<close> test.
\<close>

definition truthy :: "string option \<Rightarrow> bool" where
  "truthy v = (case v of None \<Rightarrow> False | Some s \<Rightarrow> s \<noteq> [])"

text \<open>
  \<open>interface SessionState\<close>. Times are the integer milliseconds \<open>Date.now()\<close> returns, and a
  duration is an integer number of milliseconds.
\<close>

record SessionState =
  fallbackActive :: bool
  cooldownEndTime :: int

datatype role = User | Assistant

text \<open>\<open>interface MessageInfo\<close>; \<open>model\<close> is the pair (providerID, modelID).\<close>

record MessageInfo =
  msg_id :: string
  msg_role :: role
  msg_sessionID :: string
  msg_model :: "(string \<times> string) option"
  msg_agent :: "string option"

text \<open>
  \<open>interface MessagePart\<close>, with the field \<open>synthetic\<close> that \<open>isSyntheticPart\<close> reads
  through \<open>(part as any)\<close>. The field names carry the prefix \<open>part_\<close>.
\<close>

record MessagePart =
  part_id :: string
  part_type :: string
  part_text :: "string option"
  part_mime :: "string option"
  part_filename :: "string option"
  part_url :: "string option"
  part_name :: "string option"
  part_synthetic :: "bool option"

record MessageWithParts =
  info :: MessageInfo
  parts :: "MessagePart list"

text \<open>The three shapes \<open>convertToPromptPart\<close> returns; \<open>null\<close> is \<open>None\<close>.\<close>

datatype PromptPart =
    TextPart string
  | FilePart string "string option" string
  | AgentPart string

section \<open>Pattern matcher\<close>

text \<open>
  \<open>String.prototype.toLowerCase\<close> on the ASCII letters; every other character is kept.
\<close>

definition toLowerCase_char :: "char \<Rightarrow> char" where
  "toLowerCase_char c =
     (let n = (of_char c :: nat) in if 65 \<le> n \<and> n \<le> 90 then char_of (n + 32) else c)"

definition toLowerCase :: "string \<Rightarrow> string" where
  "toLowerCase s = map toLowerCase_char s"

text \<open>
  \<open>s.startsWith(p)\<close> and \<open>s.includes(p)\<close> (here \<open>includes_str\<close>): a scan of \<open>s\<close> from the
  left.
\<close>

fun startsWith :: "string \<Rightarrow> string \<Rightarrow> bool" where
  "startsWith s [] = True"
| "startsWith [] (p # ps) = False"
| "startsWith (c # cs) (p # ps) = (c = p \<and> startsWith cs ps)"

fun includes_str :: "string \<Rightarrow> string \<Rightarrow> bool" where
  "includes_str [] p = (p = [])"
| "includes_str (c # cs) p = (startsWith (c # cs) p \<or> includes_str cs p)"

text \<open>\<open>patterns.some(f)\<close>.\<close>

fun some :: "('a \<Rightarrow> bool) \<Rightarrow> 'a list \<Rightarrow> bool" where
  "some f [] = False"
| "some f (x # xs) = (f x \<or> some f xs)"

text \<open>\<open>createPatternMatcher(patterns)\<close>, applied to \<open>message\<close>.\<close>

definition createPatternMatcher :: "string list \<Rightarrow> string \<Rightarrow> bool" where
  "createPatternMatcher patterns message =
     (let lower = toLowerCase message
      in some (\<lambda>pattern. includes_str lower (toLowerCase pattern)) patterns)"

text \<open>
  The matcher as section 4.1 of the specification words it: some configured phrase,
  case-folded, occurs somewhere in the case-folded text.
\<close>

definition occurs_in :: "string \<Rightarrow> string \<Rightarrow> bool" where
  "occurs_in p s = (\<exists>before after. s = before @ p @ after)"

definition spec_matches :: "string list \<Rightarrow> string \<Rightarrow> bool" where
  "spec_matches phrases text =
     (\<exists>phrase \<in> set phrases. occurs_in (toLowerCase phrase) (toLowerCase text))"

section \<open>Message reconstruction\<close>

text \<open>\<open>isSyntheticPart\<close>: the strict comparison \<open>synthetic === true\<close>.\<close>

definition isSyntheticPart :: "MessagePart \<Rightarrow> bool" where
  "isSyntheticPart part = (part_synthetic part = Some True)"

text \<open>\<open>convertToPromptPart\<close>: a switch on \<open>part.type\<close>, each case guarded by truthiness.\<close>

definition convertToPromptPart :: "MessagePart \<Rightarrow> PromptPart option" where
  "convertToPromptPart part =
     (if part_type part = ''text'' then
        (if truthy (part_text part) then Some (TextPart (the (part_text part))) else None)
      else if part_type part = ''file'' then
        (if truthy (part_url part) \<and> truthy (part_mime part)
         then Some (FilePart (the (part_mime part)) (part_filename part) (the (part_url part)))
         else None)
      else if part_type part = ''agent'' then
        (if truthy (part_name part) then Some (AgentPart (the (part_name part))) else None)
      else None)"

text \<open>
  Lines 135 to 138: \<open>parts.filter(p => !isSyntheticPart(p)).map(convertToPromptPart)
  .filter(p => p !== null)\<close>.
\<close>

definition originalParts :: "MessagePart list \<Rightarrow> PromptPart list" where
  "originalParts ps =
     map the (filter (\<lambda>p. p \<noteq> None)
       (map convertToPromptPart (filter (\<lambda>p. \<not> isSyntheticPart p) ps)))"

text \<open>
  Section 4.4 of the specification as a single pass over the parts, for a given conversion
  table: a synthetic part is skipped, a part the table drops is skipped, every other part
  contributes its conversion, in source order.
\<close>

fun reconstruct_with ::
  "(MessagePart \<Rightarrow> PromptPart option) \<Rightarrow> MessagePart list \<Rightarrow> PromptPart list" where
  "reconstruct_with table [] = []"
| "reconstruct_with table (p # ps) =
     (if part_synthetic p = Some True then reconstruct_with table ps
      else case table p of
             None \<Rightarrow> reconstruct_with table ps
           | Some q \<Rightarrow> q # reconstruct_with table ps)"

text \<open>
  The conversion table with \<open>present\<close> read as \<open>defined\<close>: text must be non-empty; a URL,
  a MIME type and a name need only be there.
\<close>

definition table_present :: "MessagePart \<Rightarrow> PromptPart option" where
  "table_present p =
     (if part_type p = ''text'' then
        (case part_text p of
           Some t \<Rightarrow> if t \<noteq> [] then Some (TextPart t) else None
         | None \<Rightarrow> None)
      else if part_type p = ''file'' then
        (case (part_url p, part_mime p) of
           (Some u, Some m) \<Rightarrow> Some (FilePart m (part_filename p) u)
         | _ \<Rightarrow> None)
      else if part_type p = ''agent'' then
        (case part_name p of
           Some n \<Rightarrow> Some (AgentPart n)
         | None \<Rightarrow> None)
      else None)"

text \<open>The conversion table with every one of the four fields required non-empty.\<close>

definition table_nonempty :: "MessagePart \<Rightarrow> PromptPart option" where
  "table_nonempty p =
     (if part_type p = ''text'' then
        (case part_text p of
           Some t \<Rightarrow> if t \<noteq> [] then Some (TextPart t) else None
         | None \<Rightarrow> None)
      else if part_type p = ''file'' then
        (case (part_url p, part_mime p) of
           (Some u, Some m) \<Rightarrow>
             if u \<noteq> [] \<and> m \<noteq> [] then Some (FilePart m (part_filename p) u) else None
         | _ \<Rightarrow> None)
      else if part_type p = ''agent'' then
        (case part_name p of
           Some n \<Rightarrow> if n \<noteq> [] then Some (AgentPart n) else None
         | None \<Rightarrow> None)
      else None)"

section \<open>The event handler\<close>

text \<open>
  Modelled from the spec: the resolved configuration of \<open>./config\<close> (section 6), which is
  not among the sources. \<open>fallbackModel\<close> holds the result of \<open>parseModel\<close>, a pair
  (providerID, modelID).
\<close>

record config =
  enabled :: bool
  fallbackModel :: "string \<times> string"
  cooldownMs :: int
  patterns :: "string list"
  logging :: bool

text \<open>
  The host client \<open>context.client.session\<close> is a parameter of the handler. Each operation
  is asynchronous: its promise is rejected with an error or resolved with a value. The
  data of a resolved \<open>messages\<close> call may be \<open>undefined\<close>.
\<close>

datatype 'a promise = Rejected string | Resolved 'a

fun isRejected :: "'a promise \<Rightarrow> bool" where
  "isRejected (Rejected _) = True"
| "isRejected (Resolved _) = False"

record client =
  session_abort :: "string \<Rightarrow> unit promise"
  session_messages :: "string \<Rightarrow> MessageWithParts list option promise"
  session_revert :: "string \<Rightarrow> string \<Rightarrow> unit promise"
  session_prompt ::
    "string \<Rightarrow> string \<times> string \<Rightarrow> string option \<Rightarrow> PromptPart list \<Rightarrow> unit promise"

text \<open>
  Modelled from the spec: the logger of \<open>./log\<close> (section 6), which is not among the
  sources, with its operations \<open>info(msg, fields)\<close> and \<open>error(msg, fields)\<close>. A call is
  recorded with its message; the fields are left out. Every call resolves.
\<close>

datatype log_call = LogInfo string | LogError string

text \<open>
  The effects of the handler in program order: calls of the logger, writes to the map
  \<open>sessionStates\<close>, calls of the host client with their arguments, and the timers
  (milliseconds). A host call is recorded when it is made, whether or not it is rejected.
\<close>

datatype action =
    Log log_call
  | StoreSet string SessionState
  | StoreClear string
  | StoreDelete string
  | Abort string
  | Delay nat
  | Messages string
  | Revert string string
  | Prompt string "string \<times> string" "string option" "PromptPart list"

fun isHostCall :: "action \<Rightarrow> bool" where
  "isHostCall (Abort _) = True"
| "isHostCall (Messages _) = True"
| "isHostCall (Revert _ _) = True"
| "isHostCall (Prompt _ _ _ _) = True"
| "isHostCall _ = False"

fun isAbort :: "action \<Rightarrow> bool" where
  "isAbort (Abort _) = True"
| "isAbort _ = False"

fun isStoreWrite :: "action \<Rightarrow> bool" where
  "isStoreWrite (StoreSet _ _) = True"
| "isStoreWrite (StoreClear _) = True"
| "isStoreWrite (StoreDelete _) = True"
| "isStoreWrite _ = False"

text \<open>The module-level map \<open>sessionStates\<close> together with the effects so far.\<close>

record world =
  sessionStates :: "string \<rightharpoonup> SessionState"
  trace :: "action list"

text \<open>
  The values \<open>Date.now()\<close> returns where the handler reads the clock: in the cooldown
  gate (line 81), in the write of the new entry (line 97) and in the idle branch
  (line 170). Nothing relates the three readings. The reading of line 84 goes into a
  field of a log call and is left out with it.
\<close>

record clock =
  now_gate :: int
  now_set :: int
  now_idle :: int

text \<open>
  How a block of statements ends: it runs to its end, it returns from the handler, or it
  throws.
\<close>

datatype completion = Finished | Returned | Thrown string

datatype status_type = Idle | Retry | Busy

record status =
  status_type :: status_type
  status_attempt :: "int option"
  status_message :: "string option"
  status_next :: "int option"

text \<open>
  The events: \<open>session.status\<close> with \<open>sessionID\<close> and \<open>status\<close>; \<open>session.deleted\<close> with
  \<open>info?: {id?: string}\<close> (the outer option is \<open>info\<close>, the inner one \<open>id\<close>); any other
  event, with its type.
\<close>

datatype Event =
    SessionStatus string status
  | SessionDeleted "string option option"
  | OtherEvent string

text \<open>\<open>Array.prototype.findIndex\<close>: the first index whose element satisfies \<open>f\<close>, or -1.\<close>

fun findIndex :: "('a \<Rightarrow> bool) \<Rightarrow> 'a list \<Rightarrow> int" where
  "findIndex f [] = -1"
| "findIndex f (x # xs) =
     (if f x then 0 else (let i = findIndex f xs in if i < 0 then -1 else i + 1))"

text \<open>\<open>xs[i]\<close>: \<open>undefined\<close> out of range.\<close>

definition at_index :: "'a list \<Rightarrow> int \<Rightarrow> 'a option" where
  "at_index xs i = (if 0 \<le> i \<and> i < int (length xs) then Some (xs ! nat i) else None)"

text \<open>Lines 135 to 157: rebuild the parts of the user message and submit them.\<close>

definition submitPrompt ::
  "config \<Rightarrow> client \<Rightarrow> string \<Rightarrow> MessageWithParts \<Rightarrow> action list \<times> completion" where
  "submitPrompt cfg cl sessionID lastUserMessage =
     (let parts' = originalParts (parts lastUserMessage);
          agent = msg_agent (info lastUserMessage)
      in if length parts' = 0
         then ([Log (LogError ''No valid parts found in user message'')], Returned)
         else (case session_prompt cl sessionID (fallbackModel cfg) agent parts' of
                 Rejected err \<Rightarrow>
                   ([Prompt sessionID (fallbackModel cfg) agent parts'], Thrown err)
               | Resolved _ \<Rightarrow>
                   ([Prompt sessionID (fallbackModel cfg) agent parts',
                     Log (LogInfo ''Fallback prompt sent successfully'')], Finished)))"

text \<open>Lines 118 to 157: locate the user message by its id, revert to its predecessor, submit.\<close>

definition revertAndSubmit ::
  "config \<Rightarrow> client \<Rightarrow> string \<Rightarrow> MessageWithParts list \<Rightarrow> MessageWithParts
     \<Rightarrow> action list \<times> completion" where
  "revertAndSubmit cfg cl sessionID messages lastUserMessage =
     (let lastUserIndex =
            findIndex (\<lambda>m. msg_id (info m) = msg_id (info lastUserMessage)) messages;
          revertToMessage =
            (if lastUserIndex > 0 then at_index messages (lastUserIndex - 1) else None)
      in case revertToMessage of
           None \<Rightarrow>
             (let (submitted, c) = submitPrompt cfg cl sessionID lastUserMessage
              in (Log (LogInfo ''Found last user message'') # submitted, c))
         | Some r \<Rightarrow>
             (case session_revert cl sessionID (msg_id (info r)) of
                Rejected err \<Rightarrow>
                  ([Log (LogInfo ''Found last user message''),
                    Revert sessionID (msg_id (info r))], Thrown err)
              | Resolved _ \<Rightarrow>
                  (let (submitted, c) = submitPrompt cfg cl sessionID lastUserMessage
                   in ([Log (LogInfo ''Found last user message''),
                        Revert sessionID (msg_id (info r)), Delay 100] @ submitted, c))))"

text \<open>Lines 101 to 157: the body of the \<open>try\<close> block.\<close>

definition tryBlock :: "config \<Rightarrow> client \<Rightarrow> string \<Rightarrow> action list \<times> completion" where
  "tryBlock cfg cl sessionID =
     (case session_abort cl sessionID of
        Rejected err \<Rightarrow> ([Abort sessionID], Thrown err)
      | Resolved _ \<Rightarrow>
         (case session_messages cl sessionID of
            Rejected err \<Rightarrow> ([Abort sessionID, Delay 100, Messages sessionID], Thrown err)
          | Resolved None \<Rightarrow>
              ([Abort sessionID, Delay 100, Messages sessionID,
                Log (LogError ''No messages found in session'')], Returned)
          | Resolved (Some messages) \<Rightarrow>
              if length messages = 0 then
                ([Abort sessionID, Delay 100, Messages sessionID,
                  Log (LogError ''No messages found in session'')], Returned)
              else
                (case List.find (\<lambda>m. msg_role (info m) = User) (rev messages) of
                   None \<Rightarrow>
                     ([Abort sessionID, Delay 100, Messages sessionID,
                       Log (LogError ''No user message found in session'')], Returned)
                 | Some lastUserMessage \<Rightarrow>
                     (let (rest, c) = revertAndSubmit cfg cl sessionID messages lastUserMessage
                      in ([Abort sessionID, Delay 100, Messages sessionID] @ rest, c)))))"

text \<open>Lines 100 to 163: \<open>try { ... } catch (err) { await logger.error(...) }\<close>.\<close>

definition fallbackSequence :: "config \<Rightarrow> client \<Rightarrow> string \<Rightarrow> action list \<times> completion" where
  "fallbackSequence cfg cl sessionID =
     (case tryBlock cfg cl sessionID of
        (done, Thrown err) \<Rightarrow>
          (done @ [Log (LogError ''Failed to send fallback prompt'')], Finished)
      | (done, c) \<Rightarrow> (done, c))"

text \<open>Lines 78 to 163: the cooldown gate, the write of the new entry, the fallback sequence.\<close>

definition onRateLimit ::
  "config \<Rightarrow> client \<Rightarrow> clock \<Rightarrow> string \<Rightarrow> world \<Rightarrow> world \<times> completion" where
  "onRateLimit cfg cl clk sessionID w =
     (let existingState = sessionStates w sessionID
      in if (case existingState of
               None \<Rightarrow> False
             | Some s \<Rightarrow> fallbackActive s \<and> now_gate clk < cooldownEndTime s)
         then (w\<lparr>trace := trace w @ [Log (LogInfo ''Skipping fallback, cooldown active'')]\<rparr>,
               Returned)
         else
           (let newState =
                  \<lparr>fallbackActive = True, cooldownEndTime = now_set clk + cooldownMs cfg\<rparr>;
                (done, c) = fallbackSequence cfg cl sessionID
            in (w\<lparr>sessionStates := (sessionStates w)(sessionID \<mapsto> newState),
                   trace := trace w
                      @ [Log (LogInfo ''Rate limit detected, switching to fallback''),
                         StoreSet sessionID newState]
                      @ done\<rparr>, c)))"

text \<open>Lines 76 to 165: the retry branch of a status event.\<close>

definition onRetry ::
  "config \<Rightarrow> client \<Rightarrow> clock \<Rightarrow> string \<Rightarrow> status \<Rightarrow> world \<Rightarrow> world \<times> completion" where
  "onRetry cfg cl clk sessionID st w =
     (if status_type st = Retry \<and> truthy (status_message st) then
        (if createPatternMatcher (patterns cfg) (the (status_message st))
         then onRateLimit cfg cl clk sessionID w
         else (w, Finished))
      else (w, Finished))"

text \<open>Lines 167 to 174: the idle branch of a status event.\<close>

definition onIdle :: "clock \<Rightarrow> string \<Rightarrow> status \<Rightarrow> world \<Rightarrow> world" where
  "onIdle clk sessionID st w =
     (if status_type st = Idle then
        (case sessionStates w sessionID of
           None \<Rightarrow> w
         | Some state \<Rightarrow>
             if fallbackActive state \<and> now_idle clk \<ge> cooldownEndTime state
             then w\<lparr>sessionStates :=
                      (sessionStates w)(sessionID \<mapsto> state\<lparr>fallbackActive := False\<rparr>),
                    trace := trace w
                      @ [StoreClear sessionID, Log (LogInfo ''Cooldown expired, fallback reset'')]\<rparr>
             else w)
      else w)"

text \<open>Lines 177 to 183: a deleted event; \<open>props.info?.id\<close> is tested for truthiness.\<close>

definition onDeleted :: "string option option \<Rightarrow> world \<Rightarrow> world" where
  "onDeleted props_info w =
     (let id' = (case props_info of None \<Rightarrow> None | Some i \<Rightarrow> i)
      in if truthy id' then
           w\<lparr>sessionStates := (sessionStates w)(the id' := None),
             trace := trace w @ [StoreDelete (the id'), Log (LogInfo ''Session cleaned up'')]\<rparr>
         else w)"

text \<open>
  The hook \<open>event\<close> that \<open>createPlugin\<close> returns when the configuration is enabled (when
  it is disabled no hook is registered). A \<open>return\<close> inside the retry branch leaves the
  handler.
\<close>

fun event :: "config \<Rightarrow> client \<Rightarrow> clock \<Rightarrow> Event \<Rightarrow> world \<Rightarrow> world" where
  "event cfg cl clk (SessionStatus sessionID st) w =
     (case onRetry cfg cl clk sessionID st w of
        (w', Returned) \<Rightarrow> w'
      | (w', _) \<Rightarrow> onIdle clk sessionID st w')"
| "event cfg cl clk (SessionDeleted props_info) w = onDeleted props_info w"
| "event cfg cl clk (OtherEvent t) w = w"

text \<open>The states of a session as section 4.3 derives them from the store, at a time \<open>now\<close>.\<close>

definition CooldownActive :: "world \<Rightarrow> string \<Rightarrow> int \<Rightarrow> bool" where
  "CooldownActive w sessionID now =
     (\<exists>s. sessionStates w sessionID = Some s \<and> fallbackActive s \<and> now < cooldownEndTime s)"

definition CooldownExpired :: "world \<Rightarrow> string \<Rightarrow> int \<Rightarrow> bool" where
  "CooldownExpired w sessionID now =
     (\<exists>s. sessionStates w sessionID = Some s \<and> fallbackActive s \<and> cooldownEndTime s \<le> now)"

definition Normal :: "world \<Rightarrow> string \<Rightarrow> bool" where
  "Normal w sessionID =
     (case sessionStates w sessionID of None \<Rightarrow> True | Some s \<Rightarrow> \<not> fallbackActive s)"

section \<open>Scenarios\<close>

text \<open>
  Concrete inputs for the examples below, after section 8 of the specification:
  patterns \<open>["rate limit"]\<close>, a cooldown of 1000 ms, session \<open>s1\<close>.
\<close>

definition scenario_config :: config where
  "scenario_config =
     \<lparr>enabled = True, fallbackModel = (''anthropic'', ''claude-opus-4-5''), cooldownMs = 1000,
      patterns = [''rate limit''], logging = False\<rparr>"

text \<open>A host whose calls are all resolved and whose history of every session is \<open>history\<close>.\<close>

definition resolving_client :: "MessageWithParts list \<Rightarrow> client" where
  "resolving_client history =
     \<lparr>session_abort = (\<lambda>_. Resolved ()),
      session_messages = (\<lambda>_. Resolved (Some history)),
      session_revert = (\<lambda>_ _. Resolved ()),
      session_prompt = (\<lambda>_ _ _ _. Resolved ())\<rparr>"

text \<open>A host whose calls are all rejected.\<close>

definition rejecting_client :: client where
  "rejecting_client =
     \<lparr>session_abort = (\<lambda>_. Rejected ''offline''),
      session_messages = (\<lambda>_. Rejected ''offline''),
      session_revert = (\<lambda>_ _. Rejected ''offline''),
      session_prompt = (\<lambda>_ _ _ _. Rejected ''offline'')\<rparr>"

text \<open>A clock whose three readings are the same instant.\<close>

definition at_time :: "int \<Rightarrow> clock" where
  "at_time t = \<lparr>now_gate = t, now_set = t, now_idle = t\<rparr>"

definition text_part :: "string \<Rightarrow> MessagePart" where
  "text_part t =
     \<lparr>part_id = ''p'', part_type = ''text'', part_text = Some t, part_mime = None,
      part_filename = None, part_url = None, part_name = None, part_synthetic = None\<rparr>"

definition file_part :: "string \<Rightarrow> string \<Rightarrow> MessagePart" where
  "file_part u m =
     \<lparr>part_id = ''p'', part_type = ''file'', part_text = None, part_mime = Some m,
      part_filename = None, part_url = Some u, part_name = None, part_synthetic = None\<rparr>"

definition a_message :: "string \<Rightarrow> role \<Rightarrow> MessagePart list \<Rightarrow> MessageWithParts" where
  "a_message i r ps =
     \<lparr>info = \<lparr>msg_id = i, msg_role = r, msg_sessionID = ''s1'', msg_model = None,
              msg_agent = None\<rparr>,
      parts = ps\<rparr>"

text \<open>
  The history of section 8: the user's request, then the assistant's failed answer.
\<close>

definition fix_bug_history :: "MessageWithParts list" where
  "fix_bug_history =
     [a_message ''m1'' User [text_part ''fix bug''], a_message ''m2'' Assistant []]"

text \<open>A history whose last user message has an assistant message before it.\<close>

definition later_request_history :: "MessageWithParts list" where
  "later_request_history =
     [a_message ''m0'' Assistant [text_part ''hello''],
      a_message ''m1'' User [text_part ''fix bug''],
      a_message ''m2'' Assistant []]"

text \<open>A history in which two user messages carry the same id \<open>m\<close>.\<close>

definition duplicate_id_history :: "MessageWithParts list" where
  "duplicate_id_history =
     [a_message ''a'' Assistant [text_part ''hello''],
      a_message ''m'' User [text_part ''one''],
      a_message ''b'' Assistant [text_part ''answer''],
      a_message ''m'' User [text_part ''two'']]"

definition retry_status :: "string option \<Rightarrow> status" where
  "retry_status m =
     \<lparr>status_type = Retry, status_attempt = Some 1, status_message = m, status_next = None\<rparr>"

definition idle_status :: status where
  "idle_status =
     \<lparr>status_type = Idle, status_attempt = None, status_message = None, status_next = None\<rparr>"

definition empty_world :: world where
  "empty_world = \<lparr>sessionStates = Map.empty, trace = []\<rparr>"

text \<open>A store holding one entry, for \<open>sessionID\<close>: fallback active, cooldown until \<open>t\<close>.\<close>

definition cooling_world :: "string \<Rightarrow> int \<Rightarrow> world" where
  "cooling_world sessionID t =
     \<lparr>sessionStates = [sessionID \<mapsto> \<lparr>fallbackActive = True, cooldownEndTime = t\<rparr>],
      trace = []\<rparr>"

section \<open>Properties of the pattern matcher\<close>

lemma startsWith_iff: "startsWith s p \<longleftrightarrow> (\<exists>after. s = p @ after)"
  by (induction s p rule: startsWith.induct) auto

lemma includes_iff: "includes_str s p \<longleftrightarrow> occurs_in p s"
proof (induction s)
  case Nil
  show ?case by (auto simp: occurs_in_def)
next
  case (Cons c cs)
  show ?case
  proof
    assume "includes_str (c # cs) p"
    then consider "startsWith (c # cs) p" | "includes_str cs p" by auto
    then show "occurs_in p (c # cs)"
    proof cases
      case 1
      then obtain after where "c # cs = p @ after" by (auto simp: startsWith_iff)
      then have "c # cs = [] @ p @ after" by simp
      then show ?thesis unfolding occurs_in_def by blast
    next
      case 2
      then obtain before after where "cs = before @ p @ after"
        using Cons.IH by (auto simp: occurs_in_def)
      then have "c # cs = (c # before) @ p @ after" by simp
      then show ?thesis unfolding occurs_in_def by blast
    qed
  next
    assume "occurs_in p (c # cs)"
    then obtain before after where eq: "c # cs = before @ p @ after"
      by (auto simp: occurs_in_def)
    show "includes_str (c # cs) p"
    proof (cases before)
      case Nil
      with eq have "startsWith (c # cs) p" by (auto simp: startsWith_iff)
      then show ?thesis by simp
    next
      case (Cons b bs)
      with eq have "cs = bs @ p @ after" by simp
      then have "occurs_in p cs" unfolding occurs_in_def by blast
      then show ?thesis using Cons.IH by simp
    qed
  qed
qed

lemma some_iff: "some f xs \<longleftrightarrow> (\<exists>x \<in> set xs. f x)"
  by (induction xs) auto

text \<open>
  C6. The pattern matcher is a function of the pattern list and the text alone, and it
  returns true exactly when some configured phrase, lower-cased, occurs as a contiguous
  substring of the lower-cased text. Nothing but the case folding is applied to either
  string, a phrase is compared character by character (no regular expression), and the
  function is total.
\<close>

theorem createPatternMatcher_spec:
  "createPatternMatcher phrases msg = spec_matches phrases msg"
  by (simp add: createPatternMatcher_def spec_matches_def some_iff includes_iff)

text \<open>
  The phrase is found whatever the case of the text; a doubled blank is not folded away;
  \<open>.*\<close> is two characters, not a wildcard.
\<close>

theorem createPatternMatcher_spec_witness:
  "spec_matches [''rate limit''] ''Error: Rate Limit exceeded''
   \<and> \<not> spec_matches [''rate limit''] ''rate  limit''
   \<and> \<not> spec_matches [''r.*t''] ''rate limit''"
proof -
  have 1: "createPatternMatcher [''rate limit''] ''Error: Rate Limit exceeded''" by code_simp
  have 2: "\<not> createPatternMatcher [''rate limit''] ''rate  limit''" by code_simp
  have 3: "\<not> createPatternMatcher [''r.*t''] ''rate limit''" by code_simp
  show ?thesis
    using 1 2 3 by (simp add: createPatternMatcher_spec)
qed

lemma matches_exceeded: "createPatternMatcher [''rate limit''] ''Error: rate limit exceeded''"
  by code_simp

lemma matches_again: "createPatternMatcher [''rate limit''] ''rate limit again''"
  by code_simp

lemma no_match_timeout: "\<not> createPatternMatcher [''rate limit''] ''Error: timeout''"
  by code_simp

lemma matches_empty: "createPatternMatcher [''''] ''''"
  by code_simp

section \<open>Properties of the reconstruction\<close>

lemma convertToPromptPart_table: "convertToPromptPart p = table_nonempty p"
  by (auto simp: convertToPromptPart_def table_nonempty_def truthy_def split: option.splits)

text \<open>
  C7 as stated fails: a file part whose URL is the empty string has both its URL and its
  MIME type present, so the table of the claim converts it, but \<open>part.url && part.mime\<close>
  is falsy and the code drops it.
\<close>

theorem empty_url_counterexample:
  "part_url (file_part '''' ''image/png'') = Some ''''
   \<and> part_mime (file_part '''' ''image/png'') = Some ''image/png''
   \<and> reconstruct_with table_present [file_part '''' ''image/png'']
        = [FilePart ''image/png'' None '''']
   \<and> originalParts [file_part '''' ''image/png''] = []"
  by (simp add: originalParts_def convertToPromptPart_def isSyntheticPart_def truthy_def
       table_present_def file_part_def)

text \<open>
  C7, amended. For every part list, the reconstruction skips every part flagged synthetic
  and converts the others by type: a text part with non-empty text yields a text part, a
  file part whose URL and MIME type are both present and non-empty yields a file part
  with the MIME type, the optional filename and the URL, an agent part whose name is
  present and non-empty yields an agent part, and every other part is dropped. The
  surviving parts keep their source order, and the result is a list for every input.
\<close>

theorem originalParts_reconstruct:
  "originalParts ps = reconstruct_with table_nonempty ps"
proof (induction ps)
  case Nil
  show ?case by (simp add: originalParts_def)
next
  case (Cons p ps)
  then show ?case
    by (cases "table_nonempty p")
       (simp_all add: originalParts_def isSyntheticPart_def convertToPromptPart_table)
qed

text \<open>
  One synthetic text part, one genuine text part, one empty text part and one file part:
  the genuine text and the file survive, in that order.
\<close>

theorem originalParts_reconstruct_witness:
  "originalParts [text_part ''system note''\<lparr>part_synthetic := Some True\<rparr>, text_part ''fix bug'',
                  text_part '''', file_part ''file:///a.png'' ''image/png'']
     = [TextPart ''fix bug'', FilePart ''image/png'' None ''file:///a.png'']"
  by (simp add: originalParts_reconstruct table_nonempty_def text_part_def file_part_def)

section \<open>Properties of the fallback sequence\<close>

text \<open>The sequence makes one abort call, its first action, and never writes the store.\<close>

lemma submitPrompt_actions:
  "filter isAbort (fst (submitPrompt cfg cl sid u)) = []"
  "filter isStoreWrite (fst (submitPrompt cfg cl sid u)) = []"
  by (auto simp: submitPrompt_def Let_def split: promise.splits)

lemma revertAndSubmit_actions:
  "filter isAbort (fst (revertAndSubmit cfg cl sid msgs u)) = []"
  "filter isStoreWrite (fst (revertAndSubmit cfg cl sid msgs u)) = []"
  using submitPrompt_actions[of cfg cl sid u]
  by (auto simp: revertAndSubmit_def Let_def case_prod_beta split: promise.splits option.splits)

lemma tryBlock_actions:
  "\<exists>rest. fst (tryBlock cfg cl sid) = Abort sid # rest
       \<and> filter isAbort rest = [] \<and> filter isStoreWrite rest = []"
  using revertAndSubmit_actions[of cfg cl sid]
  by (auto simp: tryBlock_def Let_def case_prod_beta split: promise.splits option.splits)

lemma fallbackSequence_actions:
  "\<exists>rest. fst (fallbackSequence cfg cl sid) = Abort sid # rest
       \<and> filter isAbort rest = [] \<and> filter isStoreWrite rest = []"
  using tryBlock_actions[of cfg cl sid]
  by (auto simp: fallbackSequence_def case_prod_beta split: completion.splits)

lemma fallbackSequence_hostcalls:
  "filter isHostCall (fst (fallbackSequence cfg cl sid))
     = filter isHostCall (fst (tryBlock cfg cl sid))"
  by (auto simp: fallbackSequence_def case_prod_beta split: completion.splits)

lemma submitPrompt_hostcalls:
  "filter isHostCall (fst (submitPrompt cfg cl sid u)) =
     (if originalParts (parts u) = [] then []
      else [Prompt sid (fallbackModel cfg) (msg_agent (info u)) (originalParts (parts u))])"
  by (auto simp: submitPrompt_def Let_def split: promise.splits)

text \<open>The reverse scan and the lookup by id, on a history split at its last user message.\<close>

lemma find_skip: "\<forall>x \<in> set xs. \<not> P x \<Longrightarrow> List.find P (xs @ ys) = List.find P ys"
  by (induction xs) auto

lemma find_last_user:
  assumes "P u" and "\<forall>m \<in> set post. \<not> P m"
  shows "List.find P (rev (pre @ u # post)) = Some u"
proof -
  have "rev (pre @ u # post) = rev post @ (u # rev pre)" by simp
  moreover have "\<forall>x \<in> set (rev post). \<not> P x" using assms(2) by simp
  ultimately have "List.find P (rev (pre @ u # post)) = List.find P (u # rev pre)"
    using find_skip[of "rev post" P "u # rev pre"] by simp
  then show ?thesis using assms(1) by simp
qed

lemma findIndex_first:
  assumes "\<forall>m \<in> set pre. \<not> f m" and "f u"
  shows "findIndex f (pre @ u # post) = int (length pre)"
  using assms by (induction pre) (auto simp: Let_def)

lemma at_index_last:
  assumes "pre \<noteq> []"
  shows "at_index (pre @ u # post) (int (length pre) - 1) = Some (last pre)"
proof -
  from assms have l: "0 < length pre" by simp
  then have n: "nat (int (length pre) - 1) = length pre - 1" by simp
  have "(pre @ u # post) ! (length pre - 1) = pre ! (length pre - 1)"
    using l by (simp add: nth_append)
  also have "\<dots> = last pre" using assms by (simp add: last_conv_nth)
  finally show ?thesis using l n by (simp add: at_index_def)
qed

lemma revertAndSubmit_located:
  assumes "\<forall>m \<in> set pre. msg_id (info m) \<noteq> msg_id (info u)"
  shows "filter isHostCall (fst (revertAndSubmit cfg cl sid (pre @ u # post) u)) =
           (if pre = [] then [] else [Revert sid (msg_id (info (last pre)))])
           @ (if pre \<noteq> [] \<and> isRejected (session_revert cl sid (msg_id (info (last pre))))
              then [] else filter isHostCall (fst (submitPrompt cfg cl sid u)))"
proof -
  have idx: "findIndex (\<lambda>m. msg_id (info m) = msg_id (info u)) (pre @ u # post)
               = int (length pre)"
    using assms by (intro findIndex_first) auto
  show ?thesis
  proof (cases "pre = []")
    case True
    then show ?thesis
      by (simp add: revertAndSubmit_def Let_def case_prod_beta)
  next
    case False
    then have tgt: "at_index (pre @ u # post) (int (length pre) - 1) = Some (last pre)"
      by (rule at_index_last)
    from False have pos: "0 < int (length pre)" by simp
    show ?thesis
      using False pos
      by (simp add: revertAndSubmit_def idx tgt Let_def case_prod_beta split: promise.splits)
  qed
qed

text \<open>
  C8 as stated fails: the code looks the selected message up by its id and takes the
  first message with that id. In \<open>duplicate_id_history\<close> the most recent user message is
  the last of four messages and the message before it has id \<open>b\<close>, yet the host is asked
  to revert to \<open>a\<close>, the message before the earlier message with the same id.
\<close>

theorem duplicate_id_counterexample:
  "length duplicate_id_history = 4
   \<and> msg_role (info (duplicate_id_history ! 3)) = User
   \<and> msg_id (info (duplicate_id_history ! 2)) = ''b''
   \<and> filter isHostCall
        (fst (fallbackSequence scenario_config (resolving_client duplicate_id_history) ''s1''))
      = [Abort ''s1'', Messages ''s1'', Revert ''s1'' ''a'',
         Prompt ''s1'' (''anthropic'', ''claude-opus-4-5'') None [TextPart ''two'']]"
  by (simp add: duplicate_id_history_def a_message_def text_part_def fallbackSequence_def
       tryBlock_def revertAndSubmit_def submitPrompt_def originalParts_def
       convertToPromptPart_def isSyntheticPart_def truthy_def at_index_def
       resolving_client_def scenario_config_def Let_def)

text \<open>
  C8, amended. Let the abort call be resolved and the history be fetched and non-empty.
  When no message has role user, the sequence ends with the error
  \<open>No user message found in session\<close> after the abort and the fetch. Otherwise let \<open>u\<close> be
  the most recent user message (no user message follows it), and let no message before
  \<open>u\<close> carry the id of \<open>u\<close>, as is the case when ids are unique. Then the host calls of the
  sequence are: the abort; the fetch; when \<open>u\<close> is not the first message, one revert to
  the message immediately before \<open>u\<close>; and, unless that revert was rejected or \<open>u\<close> has no
  convertible part, the prompt with the parts and the agent of \<open>u\<close>. When \<open>u\<close> is the
  first message there is no revert call.
\<close>

theorem revert_target_precedes_last_user:
  assumes "session_abort cl sid = Resolved ()"
      and "session_messages cl sid = Resolved (Some msgs)"
      and "msgs \<noteq> []"
  shows "((\<forall>m \<in> set msgs. msg_role (info m) \<noteq> User) \<longrightarrow>
            fallbackSequence cfg cl sid =
              ([Abort sid, Delay 100, Messages sid,
                Log (LogError ''No user message found in session'')], Returned))
       \<and> (\<forall>pre u post.
             msgs = pre @ u # post \<and> msg_role (info u) = User
             \<and> (\<forall>m \<in> set post. msg_role (info m) \<noteq> User)
             \<and> (\<forall>m \<in> set pre. msg_id (info m) \<noteq> msg_id (info u)) \<longrightarrow>
             filter isHostCall (fst (fallbackSequence cfg cl sid)) =
               [Abort sid, Messages sid]
               @ (if pre = [] then [] else [Revert sid (msg_id (info (last pre)))])
               @ (if (pre \<noteq> [] \<and> isRejected (session_revert cl sid (msg_id (info (last pre)))))
                     \<or> originalParts (parts u) = []
                  then []
                  else [Prompt sid (fallbackModel cfg) (msg_agent (info u))
                          (originalParts (parts u))]))"
proof (intro conjI impI allI)
  assume "\<forall>m \<in> set msgs. msg_role (info m) \<noteq> User"
  then have "List.find (\<lambda>m. msg_role (info m) = User) (rev msgs) = None"
    by (simp add: find_None_iff)
  then show "fallbackSequence cfg cl sid =
      ([Abort sid, Delay 100, Messages sid, Log (LogError ''No user message found in session'')],
       Returned)"
    using assms by (simp add: fallbackSequence_def tryBlock_def)
next
  fix pre u post
  assume h: "msgs = pre @ u # post \<and> msg_role (info u) = User
             \<and> (\<forall>m \<in> set post. msg_role (info m) \<noteq> User)
             \<and> (\<forall>m \<in> set pre. msg_id (info m) \<noteq> msg_id (info u))"
  then have sel: "List.find (\<lambda>m. msg_role (info m) = User) (rev msgs) = Some u"
    using find_last_user[of "\<lambda>m. msg_role (info m) = User" u post pre] by simp
  have t: "filter isHostCall (fst (tryBlock cfg cl sid)) =
             [Abort sid, Messages sid]
             @ filter isHostCall (fst (revertAndSubmit cfg cl sid msgs u))"
    using assms sel by (simp add: tryBlock_def case_prod_beta)
  from h have ids: "\<forall>m \<in> set pre. msg_id (info m) \<noteq> msg_id (info u)" by simp
  from h have m: "msgs = pre @ u # post" by simp
  show "filter isHostCall (fst (fallbackSequence cfg cl sid)) =
               [Abort sid, Messages sid]
               @ (if pre = [] then [] else [Revert sid (msg_id (info (last pre)))])
               @ (if (pre \<noteq> [] \<and> isRejected (session_revert cl sid (msg_id (info (last pre)))))
                     \<or> originalParts (parts u) = []
                  then []
                  else [Prompt sid (fallbackModel cfg) (msg_agent (info u))
                          (originalParts (parts u))])"
    unfolding fallbackSequence_hostcalls t m revertAndSubmit_located[OF ids]
      submitPrompt_hostcalls
    by simp
qed

text \<open>
  The user message at index 0: no revert. The user message at index 1: a revert to the
  message at index 0. No user message: the error.
\<close>

theorem revert_target_precedes_last_user_witness:
  "filter isHostCall
     (fst (fallbackSequence scenario_config (resolving_client fix_bug_history) ''s1''))
     = [Abort ''s1'', Messages ''s1'',
        Prompt ''s1'' (''anthropic'', ''claude-opus-4-5'') None [TextPart ''fix bug'']]
   \<and> filter isHostCall
     (fst (fallbackSequence scenario_config (resolving_client later_request_history) ''s1''))
     = [Abort ''s1'', Messages ''s1'', Revert ''s1'' ''m0'',
        Prompt ''s1'' (''anthropic'', ''claude-opus-4-5'') None [TextPart ''fix bug'']]
   \<and> fallbackSequence scenario_config
       (resolving_client [a_message ''m0'' Assistant [text_part ''hello'']]) ''s1''
     = ([Abort ''s1'', Delay 100, Messages ''s1'',
         Log (LogError ''No user message found in session'')], Returned)"
proof -
  have parts_fix: "originalParts (parts (a_message ''m1'' User [text_part ''fix bug'']))
                     = [TextPart ''fix bug'']"
    by (simp add: a_message_def text_part_def originalParts_def convertToPromptPart_def
         isSyntheticPart_def truthy_def)
  have ab: "session_abort (resolving_client h) ''s1'' = Resolved ()" for h
    by (simp add: resolving_client_def)
  have ms: "session_messages (resolving_client h) ''s1'' = Resolved (Some h)" for h
    by (simp add: resolving_client_def)
  have rv: "\<not> isRejected (session_revert (resolving_client h) ''s1'' i)" for h i
    by (simp add: resolving_client_def)
  have ne1: "fix_bug_history \<noteq> []" by (simp add: fix_bug_history_def)
  have ne2: "later_request_history \<noteq> []" by (simp add: later_request_history_def)
  have ne3: "[a_message ''m0'' Assistant [text_part ''hello'']] \<noteq> []" by simp
  have d1: "fix_bug_history = [] @ a_message ''m1'' User [text_part ''fix bug'']
              # [a_message ''m2'' Assistant []]
            \<and> msg_role (info (a_message ''m1'' User [text_part ''fix bug''])) = User
            \<and> (\<forall>m \<in> set [a_message ''m2'' Assistant []]. msg_role (info m) \<noteq> User)
            \<and> (\<forall>m \<in> set []. msg_id (info m)
                  \<noteq> msg_id (info (a_message ''m1'' User [text_part ''fix bug''])))"
    by (simp add: fix_bug_history_def a_message_def)
  have d2: "later_request_history = [a_message ''m0'' Assistant [text_part ''hello'']]
              @ a_message ''m1'' User [text_part ''fix bug'']
              # [a_message ''m2'' Assistant []]
            \<and> msg_role (info (a_message ''m1'' User [text_part ''fix bug''])) = User
            \<and> (\<forall>m \<in> set [a_message ''m2'' Assistant []]. msg_role (info m) \<noteq> User)
            \<and> (\<forall>m \<in> set [a_message ''m0'' Assistant [text_part ''hello'']]. msg_id (info m)
                  \<noteq> msg_id (info (a_message ''m1'' User [text_part ''fix bug''])))"
    by (simp add: later_request_history_def a_message_def)
  have d3: "\<forall>m \<in> set [a_message ''m0'' Assistant [text_part ''hello'']].
              msg_role (info m) \<noteq> User"
    by (simp add: a_message_def)
  note t1 = revert_target_precedes_last_user[OF ab ms ne1, of scenario_config]
  note t2 = revert_target_precedes_last_user[OF ab ms ne2, of scenario_config]
  note t3 = revert_target_precedes_last_user[OF ab ms ne3, of scenario_config]
  have 1: "filter isHostCall
     (fst (fallbackSequence scenario_config (resolving_client fix_bug_history) ''s1''))
     = [Abort ''s1'', Messages ''s1'',
        Prompt ''s1'' (''anthropic'', ''claude-opus-4-5'') None [TextPart ''fix bug'']]"
    using t1[THEN conjunct2, rule_format, OF d1] parts_fix
    by (simp add: scenario_config_def a_message_def)
  have 2: "filter isHostCall
     (fst (fallbackSequence scenario_config (resolving_client later_request_history) ''s1''))
     = [Abort ''s1'', Messages ''s1'', Revert ''s1'' ''m0'',
        Prompt ''s1'' (''anthropic'', ''claude-opus-4-5'') None [TextPart ''fix bug'']]"
    using t2[THEN conjunct2, rule_format, OF d2] parts_fix rv
    by (simp add: scenario_config_def a_message_def)
  have 3: "fallbackSequence scenario_config
       (resolving_client [a_message ''m0'' Assistant [text_part ''hello'']]) ''s1''
     = ([Abort ''s1'', Delay 100, Messages ''s1'',
         Log (LogError ''No user message found in session'')], Returned)"
    using t3[THEN conjunct1] d3 by (rule mp)
  from 1 2 3 show ?thesis by blast
qed

section \<open>Properties of the event handler\<close>

text \<open>At any instant a session is in exactly one of the three states.\<close>

lemma not_active_iff:
  "\<not> CooldownActive w sid now \<longleftrightarrow> Normal w sid \<or> CooldownExpired w sid now"
  by (auto simp: Normal_def CooldownActive_def CooldownExpired_def split: option.splits)

lemma event_idle:
  "status_type st = Idle \<Longrightarrow>
     event cfg cl clk (SessionStatus sid st) w = onIdle clk sid st w"
  by (simp add: onRetry_def)

lemma event_matching:
  assumes "status_type st = Retry" "status_message st = Some m"
          "createPatternMatcher (patterns cfg) m"
  shows "event cfg cl clk (SessionStatus sid st) w =
           (if m = [] then w else fst (onRateLimit cfg cl clk sid w))"
  using assms
  by (auto simp: onRetry_def onIdle_def truthy_def split: prod.splits completion.splits)

lemma onRateLimit_gated:
  assumes "CooldownActive w sid (now_gate clk)"
  shows "onRateLimit cfg cl clk sid w =
           (w\<lparr>trace := trace w @ [Log (LogInfo ''Skipping fallback, cooldown active'')]\<rparr>, Returned)"
  using assms by (auto simp: onRateLimit_def CooldownActive_def)

lemma onRateLimit_triggered:
  assumes "\<not> CooldownActive w sid (now_gate clk)"
  shows "fst (onRateLimit cfg cl clk sid w) =
           w\<lparr>sessionStates := (sessionStates w)(sid \<mapsto>
                 \<lparr>fallbackActive = True, cooldownEndTime = now_set clk + cooldownMs cfg\<rparr>),
              trace := trace w
                 @ [Log (LogInfo ''Rate limit detected, switching to fallback''),
                    StoreSet sid
                      \<lparr>fallbackActive = True, cooldownEndTime = now_set clk + cooldownMs cfg\<rparr>]
                 @ fst (fallbackSequence cfg cl sid)\<rparr>"
  using assms
  by (auto simp: onRateLimit_def CooldownActive_def Let_def case_prod_beta split: option.splits)

text \<open>One event starts at most one fallback sequence.\<close>

lemma event_aborts_le:
  "length (filter isAbort (trace (event cfg cl clk ev w))) \<le> Suc (length (filter isAbort (trace w)))"
proof (cases ev)
  case (SessionStatus sid st)
  obtain rest where rest: "fst (fallbackSequence cfg cl sid) = Abort sid # rest"
     "filter isAbort rest = []"
    using fallbackSequence_actions[of cfg cl sid] by blast
  have a: "length (filter isAbort (trace (fst (onRateLimit cfg cl clk sid w))))
             \<le> Suc (length (filter isAbort (trace w)))"
    using rest by (cases "CooldownActive w sid (now_gate clk)")
       (simp_all add: onRateLimit_gated onRateLimit_triggered)
  show ?thesis
  proof (cases "status_type st = Retry \<and> truthy (status_message st)
                  \<and> createPatternMatcher (patterns cfg) (the (status_message st))")
    case True
    then have "event cfg cl clk ev w = fst (onRateLimit cfg cl clk sid w)"
      using SessionStatus
      by (auto simp: onRetry_def onIdle_def split: prod.splits completion.splits)
    then show ?thesis using a by simp
  next
    case False
    then have "onRetry cfg cl clk sid st w = (w, Finished)"
      by (auto simp: onRetry_def)
    then have "filter isAbort (trace (event cfg cl clk ev w)) = filter isAbort (trace w)"
      using SessionStatus by (auto simp: onIdle_def split: option.splits)
    then show ?thesis by simp
  qed
next
  case (SessionDeleted i)
  then show ?thesis by (auto simp: onDeleted_def Let_def)
next
  case (OtherEvent t)
  then show ?thesis by simp
qed

text \<open>
  C1. Let a session be in state CooldownActive when the gate reads the clock: its entry
  has \<open>fallbackActive\<close> true and a \<open>cooldownEndTime\<close> in the future. Then a retry status
  whose message matches a configured pattern leaves the whole store as it was and adds
  no host call (no abort, fetch, revert or prompt). Hence, whatever event was processed
  just before, the two events together start at most one fallback sequence.
\<close>

theorem cooldown_gate_suppresses_retry:
  assumes "status_type st = Retry" and "status_message st = Some m"
      and "createPatternMatcher (patterns cfg) m"
      and "CooldownActive w sid (now_gate clk)"
  shows "sessionStates (event cfg cl clk (SessionStatus sid st) w) = sessionStates w
       \<and> filter isHostCall (trace (event cfg cl clk (SessionStatus sid st) w))
           = filter isHostCall (trace w)
       \<and> (\<forall>cl0 clk0 ev0 w0. w = event cfg cl0 clk0 ev0 w0 \<longrightarrow>
             length (filter isAbort (trace (event cfg cl clk (SessionStatus sid st) w)))
               \<le> Suc (length (filter isAbort (trace w0))))"
proof -
  let ?w' = "event cfg cl clk (SessionStatus sid st) w"
  have e: "?w' = (if m = [] then w
                  else w\<lparr>trace := trace w @ [Log (LogInfo ''Skipping fallback, cooldown active'')]\<rparr>)"
    using assms by (simp add: event_matching onRateLimit_gated del: event.simps)
  have 1: "sessionStates ?w' = sessionStates w" by (simp add: e del: event.simps)
  have 2: "filter isHostCall (trace ?w') = filter isHostCall (trace w)"
    by (simp add: e del: event.simps)
  have 3: "filter isAbort (trace ?w') = filter isAbort (trace w)"
    by (simp add: e del: event.simps)
  have 4: "length (filter isAbort (trace ?w')) \<le> Suc (length (filter isAbort (trace w0)))"
    if "w = event cfg cl0 clk0 ev0 w0" for cl0 clk0 ev0 w0
    using event_aborts_le[of cfg cl0 clk0 ev0 w0] that 3 by simp
  from 1 2 4 show ?thesis by blast
qed

text \<open>
  The scenario of section 8: a first rate-limit message at time 0 opens the window up to
  1000 (the host rejects the abort, so the sequence fails); a second one at time 10
  changes nothing, and the abort of the first event remains the only host call.
\<close>

theorem cooldown_gate_suppresses_retry_witness:
  "sessionStates
     (event scenario_config (resolving_client [a_message ''m1'' User [text_part ''fix bug'']])
        (at_time 10) (SessionStatus ''s1'' (retry_status (Some ''rate limit again'')))
        (event scenario_config rejecting_client (at_time 0)
           (SessionStatus ''s1'' (retry_status (Some ''Error: rate limit exceeded'')))
           empty_world))
     = [''s1'' \<mapsto> \<lparr>fallbackActive = True, cooldownEndTime = 1000\<rparr>]
   \<and> filter isHostCall (trace
     (event scenario_config (resolving_client [a_message ''m1'' User [text_part ''fix bug'']])
        (at_time 10) (SessionStatus ''s1'' (retry_status (Some ''rate limit again'')))
        (event scenario_config rejecting_client (at_time 0)
           (SessionStatus ''s1'' (retry_status (Some ''Error: rate limit exceeded'')))
           empty_world)))
     = [Abort ''s1'']
   \<and> length (filter isAbort (trace
     (event scenario_config (resolving_client [a_message ''m1'' User [text_part ''fix bug'']])
        (at_time 10) (SessionStatus ''s1'' (retry_status (Some ''rate limit again'')))
        (event scenario_config rejecting_client (at_time 0)
           (SessionStatus ''s1'' (retry_status (Some ''Error: rate limit exceeded'')))
           empty_world))))
     \<le> Suc (length (filter isAbort (trace empty_world)))"
proof -
  let ?e1 = "SessionStatus ''s1'' (retry_status (Some ''Error: rate limit exceeded''))"
  let ?w1 = "event scenario_config rejecting_client (at_time 0) ?e1 empty_world"
  have w1: "?w1 = \<lparr>sessionStates = [''s1'' \<mapsto> \<lparr>fallbackActive = True, cooldownEndTime = 1000\<rparr>],
                  trace = [Log (LogInfo ''Rate limit detected, switching to fallback''),
                           StoreSet ''s1'' \<lparr>fallbackActive = True, cooldownEndTime = 1000\<rparr>,
                           Abort ''s1'', Log (LogError ''Failed to send fallback prompt'')]\<rparr>"
    using matches_exceeded
    by (simp add: retry_status_def onRetry_def onRateLimit_def fallbackSequence_def tryBlock_def
         truthy_def empty_world_def scenario_config_def rejecting_client_def at_time_def
         onIdle_def Let_def)
  have 1: "status_type (retry_status (Some ''rate limit again'')) = Retry"
    by (simp add: retry_status_def)
  have 2: "status_message (retry_status (Some ''rate limit again'')) = Some ''rate limit again''"
    by (simp add: retry_status_def)
  have 3: "createPatternMatcher (patterns scenario_config) ''rate limit again''"
    using matches_again by (simp add: scenario_config_def)
  have 4: "CooldownActive ?w1 ''s1'' (now_gate (at_time 10))"
    unfolding w1 by (simp add: CooldownActive_def at_time_def)
  note th = cooldown_gate_suppresses_retry[OF 1 2 3 4,
      of "resolving_client [a_message ''m1'' User [text_part ''fix bug'']]"]
  from th have a: "sessionStates
     (event scenario_config (resolving_client [a_message ''m1'' User [text_part ''fix bug'']])
        (at_time 10) (SessionStatus ''s1'' (retry_status (Some ''rate limit again''))) ?w1)
     = sessionStates ?w1" by blast
  from th have b: "filter isHostCall (trace
     (event scenario_config (resolving_client [a_message ''m1'' User [text_part ''fix bug'']])
        (at_time 10) (SessionStatus ''s1'' (retry_status (Some ''rate limit again''))) ?w1))
     = filter isHostCall (trace ?w1)" by blast
  from th have c: "length (filter isAbort (trace
     (event scenario_config (resolving_client [a_message ''m1'' User [text_part ''fix bug'']])
        (at_time 10) (SessionStatus ''s1'' (retry_status (Some ''rate limit again''))) ?w1)))
     \<le> Suc (length (filter isAbort (trace empty_world)))" by blast
  have s: "sessionStates ?w1 = [''s1'' \<mapsto> \<lparr>fallbackActive = True, cooldownEndTime = 1000\<rparr>]"
    unfolding w1 by simp
  have h: "filter isHostCall (trace ?w1) = [Abort ''s1'']"
    unfolding w1 by simp
  show ?thesis using a b c s h by (simp del: event.simps)
qed

text \<open>
  C2 as stated fails: with the empty pattern configured, the empty message is present
  and matches, the session is in state Normal, and yet no entry is written, because
  \<open>props.status.message\<close> is falsy for the empty string.
\<close>

theorem empty_message_counterexample:
  "status_type (retry_status (Some '''')) = Retry
   \<and> status_message (retry_status (Some '''')) = Some ''''
   \<and> createPatternMatcher (patterns (scenario_config\<lparr>patterns := ['''']\<rparr>)) ''''
   \<and> Normal empty_world ''s1''
   \<and> sessionStates (event (scenario_config\<lparr>patterns := ['''']\<rparr>) (resolving_client [])
        (at_time 0) (SessionStatus ''s1'' (retry_status (Some ''''))) empty_world) ''s1'' = None"
  using matches_empty
  by (simp add: retry_status_def Normal_def empty_world_def onRetry_def onIdle_def truthy_def
       scenario_config_def)

text \<open>
  C2, amended. Let a session be in state Normal or CooldownExpired when the gate reads
  the clock. Then a retry status whose message is present, non-empty and matches a
  configured pattern sets the session's entry to \<open>fallbackActive\<close> true and
  \<open>cooldownEndTime\<close> = the clock reading of the write + \<open>cooldownMs\<close>, and changes no other
  entry. The write comes before the first host call, the abort, and nothing after it
  writes the store: the entry has this value at the end for every behaviour of the host.
\<close>

theorem rate_limit_opens_cooldown:
  assumes "status_type st = Retry" and "status_message st = Some m" and "m \<noteq> []"
      and "createPatternMatcher (patterns cfg) m"
      and "Normal w sid \<or> CooldownExpired w sid (now_gate clk)"
  shows "sessionStates (event cfg cl clk (SessionStatus sid st) w)
           = (sessionStates w)(sid \<mapsto>
                \<lparr>fallbackActive = True, cooldownEndTime = now_set clk + cooldownMs cfg\<rparr>)
       \<and> (\<exists>rest. trace (event cfg cl clk (SessionStatus sid st) w)
             = trace w
               @ [Log (LogInfo ''Rate limit detected, switching to fallback''),
                  StoreSet sid
                    \<lparr>fallbackActive = True, cooldownEndTime = now_set clk + cooldownMs cfg\<rparr>,
                  Abort sid]
               @ rest
            \<and> filter isStoreWrite rest = [])"
proof -
  obtain rest where rest: "fst (fallbackSequence cfg cl sid) = Abort sid # rest"
     "filter isStoreWrite rest = []"
    using fallbackSequence_actions[of cfg cl sid] by blast
  have na: "\<not> CooldownActive w sid (now_gate clk)"
    using assms(5) by (simp add: not_active_iff)
  have e: "event cfg cl clk (SessionStatus sid st) w = fst (onRateLimit cfg cl clk sid w)"
    using assms(1-4) by (simp add: event_matching del: event.simps)
  show ?thesis
    unfolding e onRateLimit_triggered[OF na] using rest by simp
qed

text \<open>The scenario of section 8, with a host that rejects every call.\<close>

theorem rate_limit_opens_cooldown_witness:
  "sessionStates (event scenario_config rejecting_client (at_time 0)
       (SessionStatus ''s1'' (retry_status (Some ''Error: rate limit exceeded''))) empty_world)
     = [''s1'' \<mapsto> \<lparr>fallbackActive = True, cooldownEndTime = 1000\<rparr>]
   \<and> (\<exists>rest. trace (event scenario_config rejecting_client (at_time 0)
       (SessionStatus ''s1'' (retry_status (Some ''Error: rate limit exceeded''))) empty_world)
        = [Log (LogInfo ''Rate limit detected, switching to fallback''),
           StoreSet ''s1'' \<lparr>fallbackActive = True, cooldownEndTime = 1000\<rparr>,
           Abort ''s1''] @ rest
        \<and> filter isStoreWrite rest = [])"
proof -
  have 1: "status_type (retry_status (Some ''Error: rate limit exceeded'')) = Retry"
    by (simp add: retry_status_def)
  have 2: "status_message (retry_status (Some ''Error: rate limit exceeded''))
             = Some ''Error: rate limit exceeded''"
    by (simp add: retry_status_def)
  have 3: "''Error: rate limit exceeded'' \<noteq> []" by simp
  have 4: "createPatternMatcher (patterns scenario_config) ''Error: rate limit exceeded''"
    using matches_exceeded by (simp add: scenario_config_def)
  have 5: "Normal empty_world ''s1'' \<or> CooldownExpired empty_world ''s1'' (now_gate (at_time 0))"
    by (simp add: Normal_def empty_world_def)
  show ?thesis
    using rate_limit_opens_cooldown[OF 1 2 3 4 5, of rejecting_client]
    by (simp add: empty_world_def at_time_def scenario_config_def del: event.simps)
qed

text \<open>
  C5. A retry status whose message is absent, or whose message matches no configured
  pattern, changes nothing: the store is the same map afterwards, for this session and
  for every other, and no effect is added.
\<close>

theorem retry_unqualified_unchanged:
  assumes "status_type st = Retry"
      and "status_message st = None \<or>
           (\<exists>m. status_message st = Some m \<and> \<not> createPatternMatcher (patterns cfg) m)"
  shows "event cfg cl clk (SessionStatus sid st) w = w"
  using assms by (auto simp: onRetry_def onIdle_def truthy_def)

theorem retry_unqualified_unchanged_witness:
  "event scenario_config rejecting_client (at_time 0)
     (SessionStatus ''s1'' (retry_status (Some ''Error: timeout''))) (cooling_world ''s2'' 1000)
     = cooling_world ''s2'' 1000
   \<and> event scenario_config rejecting_client (at_time 0)
     (SessionStatus ''s1'' (retry_status None)) (cooling_world ''s2'' 1000)
     = cooling_world ''s2'' 1000"
proof -
  have t: "status_type (retry_status m) = Retry" for m by (simp add: retry_status_def)
  have a: "status_message (retry_status (Some ''Error: timeout'')) = None \<or>
        (\<exists>m. status_message (retry_status (Some ''Error: timeout'')) = Some m
            \<and> \<not> createPatternMatcher (patterns scenario_config) m)"
    using no_match_timeout by (simp add: retry_status_def scenario_config_def)
  have b: "status_message (retry_status None) = None \<or>
        (\<exists>m. status_message (retry_status None) = Some m
            \<and> \<not> createPatternMatcher (patterns scenario_config) m)"
    by (simp add: retry_status_def)
  show ?thesis
    using retry_unqualified_unchanged[OF t a] retry_unqualified_unchanged[OF t b] by blast
qed

text \<open>
  C3. An idle status clears \<open>fallbackActive\<close> exactly in state CooldownExpired (an entry with
  \<open>fallbackActive\<close> true and \<open>cooldownEndTime\<close> at or before the clock reading). In state
  CooldownActive (strictly before \<open>cooldownEndTime\<close>) and in state Normal (no entry, or
  \<open>fallbackActive\<close> already false) nothing changes.
\<close>

theorem idle_clears_iff_expired:
  assumes "status_type st = Idle"
  shows "(CooldownExpired w sid (now_idle clk) \<longrightarrow>
           (\<exists>s. sessionStates w sid = Some s \<and>
                sessionStates (event cfg cl clk (SessionStatus sid st) w) sid
                  = Some (s\<lparr>fallbackActive := False\<rparr>)))
       \<and> (CooldownActive w sid (now_idle clk) \<longrightarrow>
            event cfg cl clk (SessionStatus sid st) w = w)
       \<and> (Normal w sid \<longrightarrow> event cfg cl clk (SessionStatus sid st) w = w)"
  using assms
  by (auto simp: event_idle onIdle_def CooldownExpired_def CooldownActive_def Normal_def
           simp del: event.simps split: option.splits)

text \<open>
  With a cooldown until 1000: idle at 1000 clears the flag, idle at 999 does not, and
  idle for a session without an entry changes nothing.
\<close>

theorem idle_clears_iff_expired_witness:
  "sessionStates (event scenario_config rejecting_client (at_time 1000)
       (SessionStatus ''s1'' idle_status) (cooling_world ''s1'' 1000)) ''s1''
     = Some \<lparr>fallbackActive = False, cooldownEndTime = 1000\<rparr>
   \<and> event scenario_config rejecting_client (at_time 999)
       (SessionStatus ''s1'' idle_status) (cooling_world ''s1'' 1000) = cooling_world ''s1'' 1000
   \<and> event scenario_config rejecting_client (at_time 999)
       (SessionStatus ''s1'' idle_status) empty_world = empty_world"
proof -
  have i: "status_type idle_status = Idle" by (simp add: idle_status_def)
  have x: "CooldownExpired (cooling_world ''s1'' 1000) ''s1'' (now_idle (at_time 1000))"
    by (simp add: CooldownExpired_def cooling_world_def at_time_def)
  have a: "CooldownActive (cooling_world ''s1'' 1000) ''s1'' (now_idle (at_time 999))"
    by (simp add: CooldownActive_def cooling_world_def at_time_def)
  have n: "Normal empty_world ''s1''"
    by (simp add: Normal_def empty_world_def)
  from idle_clears_iff_expired[OF i, of "cooling_world ''s1'' 1000" "''s1''" "at_time 1000"
         scenario_config rejecting_client] x
  have 1: "sessionStates (event scenario_config rejecting_client (at_time 1000)
       (SessionStatus ''s1'' idle_status) (cooling_world ''s1'' 1000)) ''s1''
     = Some \<lparr>fallbackActive = False, cooldownEndTime = 1000\<rparr>"
    by (auto simp: cooling_world_def simp del: event.simps)
  from idle_clears_iff_expired[OF i, of "cooling_world ''s1'' 1000" "''s1''" "at_time 999"
         scenario_config rejecting_client] a
  have 2: "event scenario_config rejecting_client (at_time 999)
       (SessionStatus ''s1'' idle_status) (cooling_world ''s1'' 1000) = cooling_world ''s1'' 1000"
    by blast
  from idle_clears_iff_expired[OF i, of empty_world "''s1''" "at_time 999"
         scenario_config rejecting_client] n
  have 3: "event scenario_config rejecting_client (at_time 999)
       (SessionStatus ''s1'' idle_status) empty_world = empty_world"
    by blast
  from 1 2 3 show ?thesis by blast
qed

text \<open>
  C10. When an idle status clears the flag of a session, the entry stays in the store
  with the same \<open>cooldownEndTime\<close>, every other session's entry is as before, and the store
  has the same keys.
\<close>

theorem idle_clear_frame:
  assumes "status_type st = Idle"
      and "sessionStates w sid = Some s" and "fallbackActive s"
      and "cooldownEndTime s \<le> now_idle clk"
  shows "sessionStates (event cfg cl clk (SessionStatus sid st) w) sid
           = Some (s\<lparr>fallbackActive := False\<rparr>)
       \<and> (\<forall>other. other \<noteq> sid \<longrightarrow>
             sessionStates (event cfg cl clk (SessionStatus sid st) w) other
               = sessionStates w other)
       \<and> dom (sessionStates (event cfg cl clk (SessionStatus sid st) w)) = dom (sessionStates w)"
  using assms by (auto simp: event_idle onIdle_def simp del: event.simps)

theorem idle_clear_frame_witness:
  "sessionStates (event scenario_config rejecting_client (at_time 1500)
       (SessionStatus ''s1'' idle_status) (cooling_world ''s1'' 1000)) ''s1''
     = Some \<lparr>fallbackActive = False, cooldownEndTime = 1000\<rparr>
   \<and> sessionStates (event scenario_config rejecting_client (at_time 1500)
       (SessionStatus ''s1'' idle_status) (cooling_world ''s1'' 1000)) ''s2'' = None
   \<and> dom (sessionStates (event scenario_config rejecting_client (at_time 1500)
       (SessionStatus ''s1'' idle_status) (cooling_world ''s1'' 1000))) = {''s1''}"
proof -
  have i: "status_type idle_status = Idle" by (simp add: idle_status_def)
  have s: "sessionStates (cooling_world ''s1'' 1000) ''s1''
             = Some \<lparr>fallbackActive = True, cooldownEndTime = 1000\<rparr>"
    by (simp add: cooling_world_def)
  have f: "fallbackActive \<lparr>fallbackActive = True, cooldownEndTime = 1000\<rparr>" by simp
  have t: "cooldownEndTime \<lparr>fallbackActive = True, cooldownEndTime = 1000\<rparr>
             \<le> now_idle (at_time 1500)"
    by (simp add: at_time_def)
  have o: "sessionStates (cooling_world ''s1'' 1000) ''s2'' = None"
    by (simp add: cooling_world_def)
  have d: "dom (sessionStates (cooling_world ''s1'' 1000)) = {''s1''}"
    by (simp add: cooling_world_def)
  have n: "''s2'' \<noteq> ''s1''" by simp
  show ?thesis
    using idle_clear_frame[OF i s f t, of scenario_config rejecting_client] o d n
    by (simp del: event.simps)
qed

text \<open>
  C4 as stated fails for the session whose identifier is the empty string: the guard
  \<open>props.info?.id\<close> is falsy, and the entry stays.
\<close>

theorem deleted_empty_id_counterexample:
  "sessionStates (event scenario_config rejecting_client (at_time 500)
        (SessionDeleted (Some (Some ''''))) (cooling_world '''' 1000)) ''''
     = Some \<lparr>fallbackActive = True, cooldownEndTime = 1000\<rparr>"
  by (simp add: onDeleted_def truthy_def cooling_world_def)

text \<open>
  C4, amended. For every session with a non-empty identifier and every prior store, a
  deleted event that carries the identifier removes the session's entry: afterwards the
  store has no entry for it.
\<close>

theorem deleted_removes_entry:
  "sid \<noteq> [] \<Longrightarrow> sessionStates (event cfg cl clk (SessionDeleted (Some (Some sid))) w) sid = None"
  by (simp add: onDeleted_def truthy_def)

text \<open>Mid-cooldown: the entry of \<open>s1\<close> is there before and gone after.\<close>

theorem deleted_removes_entry_witness:
  "''s1'' \<noteq> [] \<and> sessionStates (cooling_world ''s1'' 1000) ''s1'' \<noteq> None
   \<and> sessionStates (event scenario_config rejecting_client (at_time 500)
        (SessionDeleted (Some (Some ''s1''))) (cooling_world ''s1'' 1000)) ''s1'' = None"
  using deleted_removes_entry[of "''s1''" scenario_config rejecting_client "at_time 500"
          "cooling_world ''s1'' 1000"]
  by (simp add: cooling_world_def)

text \<open>
  C9. A deleted event without a session identifier (\<open>info\<close> absent, or \<open>info.id\<close> absent)
  changes nothing: no entry is removed.
\<close>

theorem deleted_without_id_unchanged:
  "props_info = None \<or> props_info = Some None \<Longrightarrow> event cfg cl clk (SessionDeleted props_info) w = w"
  by (auto simp: onDeleted_def truthy_def)

theorem deleted_without_id_unchanged_witness:
  "event scenario_config rejecting_client (at_time 0) (SessionDeleted None) (cooling_world ''s1'' 1000)
     = cooling_world ''s1'' 1000
   \<and> event scenario_config rejecting_client (at_time 0) (SessionDeleted (Some None)) (cooling_world ''s1'' 1000)
     = cooling_world ''s1'' 1000"
  using deleted_without_id_unchanged[of None] deleted_without_id_unchanged[of "Some None"]
  by simp

end
